theory Spec2Isabelle
  imports Complex_Main "HOL-Library.Multiset"
begin

section \<open>The sizing engine of src/App.tsx (\<open>calculateSolarSystem\<close>)\<close>

subsection \<open>JavaScript numbers\<close>

text \<open>
  Every quantity of the engine is a JavaScript \<open>number\<close>. The model keeps the values a
  \<open>number\<close> can take that decide the control flow of the engine: a finite value, the two
  infinities and NaN. Finite values are exact rationals: the rounding of IEEE doubles is
  not modelled, and the decimal constants of the source (\<open>0.7\<close>, \<open>1.2\<close>, \<open>4.5\<close>, ...)
  stand for the fractions they are written as. The zero of the model is \<open>+0\<close>; a negative
  zero is not distinguished.
\<close>

datatype jsnum = Fin rat | PInf | NInf | NaN

text \<open>\<open>a + b\<close>\<close>

fun js_add :: "jsnum \<Rightarrow> jsnum \<Rightarrow> jsnum" where
  "js_add (Fin a) (Fin b) = Fin (a + b)"
| "js_add NaN _ = NaN"
| "js_add _ NaN = NaN"
| "js_add PInf NInf = NaN"
| "js_add NInf PInf = NaN"
| "js_add PInf _ = PInf"
| "js_add _ PInf = PInf"
| "js_add NInf _ = NInf"
| "js_add _ NInf = NInf"

text \<open>\<open>a * b\<close>: an infinity times zero is NaN, otherwise the signs multiply.\<close>

fun js_mul :: "jsnum \<Rightarrow> jsnum \<Rightarrow> jsnum" where
  "js_mul (Fin a) (Fin b) = Fin (a * b)"
| "js_mul NaN _ = NaN"
| "js_mul _ NaN = NaN"
| "js_mul PInf (Fin b) = (if b = 0 then NaN else if 0 < b then PInf else NInf)"
| "js_mul NInf (Fin b) = (if b = 0 then NaN else if 0 < b then NInf else PInf)"
| "js_mul (Fin a) PInf = (if a = 0 then NaN else if 0 < a then PInf else NInf)"
| "js_mul (Fin a) NInf = (if a = 0 then NaN else if 0 < a then NInf else PInf)"
| "js_mul PInf PInf = PInf"
| "js_mul NInf NInf = PInf"
| "js_mul PInf NInf = NInf"
| "js_mul NInf PInf = NInf"

text \<open>
  \<open>a / b\<close> never raises: a non-zero value over zero is an infinity, zero over zero is NaN.
\<close>

fun js_div :: "jsnum \<Rightarrow> jsnum \<Rightarrow> jsnum" where
  "js_div (Fin a) (Fin b) =
     (if b = 0 then (if a = 0 then NaN else if 0 < a then PInf else NInf)
      else Fin (a / b))"
| "js_div NaN _ = NaN"
| "js_div _ NaN = NaN"
| "js_div (Fin a) PInf = Fin 0"
| "js_div (Fin a) NInf = Fin 0"
| "js_div PInf (Fin b) = (if b < 0 then NInf else PInf)"
| "js_div NInf (Fin b) = (if b < 0 then PInf else NInf)"
| "js_div PInf PInf = NaN"
| "js_div PInf NInf = NaN"
| "js_div NInf PInf = NaN"
| "js_div NInf NInf = NaN"

text \<open>\<open>Math.ceil(a)\<close>\<close>

fun Math_ceil :: "jsnum \<Rightarrow> jsnum" where
  "Math_ceil (Fin a) = Fin (of_int \<lceil>a\<rceil>)"
| "Math_ceil PInf = PInf"
| "Math_ceil NInf = NInf"
| "Math_ceil NaN = NaN"

text \<open>\<open>a >= b\<close>: false as soon as one side is NaN.\<close>

fun js_ge :: "jsnum \<Rightarrow> jsnum \<Rightarrow> bool" where
  "js_ge (Fin a) (Fin b) = (b \<le> a)"
| "js_ge NaN _ = False"
| "js_ge _ NaN = False"
| "js_ge PInf _ = True"
| "js_ge _ NInf = True"
| "js_ge (Fin a) PInf = False"
| "js_ge NInf _ = False"

text \<open>A number is falsy when it is zero or NaN.\<close>

fun truthy :: "jsnum \<Rightarrow> bool" where
  "truthy (Fin a) = (a \<noteq> 0)"
| "truthy PInf = True"
| "truthy NInf = True"
| "truthy NaN = False"

text \<open>
  \<open>x || d\<close> where \<open>x\<close> is a number or \<open>undefined\<close> (\<open>None\<close>), as produced by an optional
  chain \<open>item?.field\<close>, and \<open>d\<close> is a number.
\<close>

fun lor_num :: "jsnum option \<Rightarrow> jsnum \<Rightarrow> jsnum" where
  "lor_num None d = d"
| "lor_num (Some x) d = (if truthy x then x else d)"

text \<open>\<open>x || y\<close> where both sides are an object or \<open>undefined\<close>: an object is truthy.\<close>

fun lor_obj :: "'a option \<Rightarrow> 'a option \<Rightarrow> 'a option" where
  "lor_obj None y = y"
| "lor_obj (Some x) y = Some x"

subsection \<open>Data types\<close>

datatype item_type = Panel | Inverter | Battery | Installation

text \<open>\<open>type CatalogItem = { id; name; type; price; spec; unit }\<close>\<close>

record CatalogItem =
  id_item :: string
  name_item :: string
  type_item :: item_type
  price :: jsnum
  spec :: jsnum
  unit_item :: string

text \<open>
  \<open>type SelectedAppliance = Appliance & { count; hours }\<close>; the \<open>icon\<close> of an appliance
  is a view node and is left out.
\<close>

record SelectedAppliance =
  id_app :: string
  name_app :: string
  watts :: jsnum
  defaultHours :: jsnum
  count_app :: jsnum
  hours :: jsnum

text \<open>The object returned by the engine, with its four nested objects.\<close>

record system_part =
  inverterCount :: jsnum
  batteryCount :: jsnum
  panelCount :: jsnum
  inverter :: "CatalogItem option"
  battery :: "CatalogItem option"
  panel :: "CatalogItem option"

record financials_part =
  totalCost :: jsnum
  totalAnnualSavings :: jsnum
  roiYears :: jsnum

record impact_part =
  co2Saved :: jsnum

record details_part =
  dailyWh :: jsnum
  designedPeakLoad :: jsnum

record sizing_result =
  system :: system_part
  financials :: financials_part
  impact :: impact_part
  details :: details_part

subsection \<open>The engine\<close>

text \<open>
  The \<open>forEach\<close> loop over the appliances, threading the two accumulators
  \<open>dailyWh\<close> and \<open>peakWatts\<close>.
\<close>

fun forEach_appliances :: "SelectedAppliance list \<Rightarrow> jsnum \<times> jsnum \<Rightarrow> jsnum \<times> jsnum" where
  "forEach_appliances [] (dWh, pW) = (dWh, pW)"
| "forEach_appliances (app # rest) (dWh, pW) =
     forEach_appliances rest
       (js_add dWh (js_mul (js_mul (watts app) (count_app app)) (hours app)),
        js_add pW (js_mul (watts app) (count_app app)))"

definition calc_dailyWh :: "SelectedAppliance list \<Rightarrow> jsnum" where
  "calc_dailyWh appliances = fst (forEach_appliances appliances (Fin 0, Fin 0))"

definition calc_peakWatts :: "SelectedAppliance list \<Rightarrow> jsnum" where
  "calc_peakWatts appliances = snd (forEach_appliances appliances (Fin 0, Fin 0))"

definition diversityFactor :: jsnum where
  "diversityFactor = Fin (7 / 10)"

definition calc_designedPeakLoad :: "SelectedAppliance list \<Rightarrow> jsnum" where
  "calc_designedPeakLoad appliances = js_mul (calc_peakWatts appliances) diversityFactor"

definition calc_requiredInverterSize :: "SelectedAppliance list \<Rightarrow> jsnum" where
  "calc_requiredInverterSize appliances =
     js_mul (calc_designedPeakLoad appliances) (Fin (12 / 10))"

text \<open>
  \<open>catalog.find(i => i.type === 'inverter' && i.spec >= requiredInverterSize)
     || catalog.find(i => i.type === 'inverter')\<close>
\<close>

definition find_inverter :: "jsnum \<Rightarrow> CatalogItem list \<Rightarrow> CatalogItem option" where
  "find_inverter requiredInverterSize catalog =
     lor_obj
       (List.find (\<lambda>i. type_item i = Inverter \<and> js_ge (spec i) requiredInverterSize) catalog)
       (List.find (\<lambda>i. type_item i = Inverter) catalog)"

definition calc_inverter :: "SelectedAppliance list \<Rightarrow> CatalogItem list \<Rightarrow> CatalogItem option" where
  "calc_inverter appliances catalog =
     find_inverter (calc_requiredInverterSize appliances) catalog"

text \<open>The divisor \<open>(inverter?.spec || 5000)\<close> and its two siblings.\<close>

definition inverter_divisor :: "CatalogItem option \<Rightarrow> jsnum" where
  "inverter_divisor item = lor_num (map_option spec item) (Fin 5000)"

definition battery_divisor :: "CatalogItem option \<Rightarrow> jsnum" where
  "battery_divisor item = lor_num (map_option spec item) (Fin 4800)"

definition panel_divisor :: "CatalogItem option \<Rightarrow> jsnum" where
  "panel_divisor item = lor_num (map_option spec item) (Fin 550)"

definition calc_inverterCount :: "SelectedAppliance list \<Rightarrow> CatalogItem list \<Rightarrow> jsnum" where
  "calc_inverterCount appliances catalog =
     Math_ceil (js_div (calc_requiredInverterSize appliances)
                       (inverter_divisor (calc_inverter appliances catalog)))"

definition calc_requiredStorageWh :: "SelectedAppliance list \<Rightarrow> jsnum" where
  "calc_requiredStorageWh appliances = js_mul (calc_dailyWh appliances) (Fin (6 / 10))"

definition calc_battery :: "CatalogItem list \<Rightarrow> CatalogItem option" where
  "calc_battery catalog = List.find (\<lambda>i. type_item i = Battery) catalog"

definition calc_batteryCount :: "SelectedAppliance list \<Rightarrow> CatalogItem list \<Rightarrow> jsnum" where
  "calc_batteryCount appliances catalog =
     Math_ceil (js_div (calc_requiredStorageWh appliances)
                       (battery_divisor (calc_battery catalog)))"

definition calc_requiredPanelPower :: "SelectedAppliance list \<Rightarrow> jsnum" where
  "calc_requiredPanelPower appliances =
     js_mul (js_div (calc_dailyWh appliances) (Fin (45 / 10))) (Fin (13 / 10))"

definition calc_panel :: "CatalogItem list \<Rightarrow> CatalogItem option" where
  "calc_panel catalog = List.find (\<lambda>i. type_item i = Panel) catalog"

definition calc_panelCount :: "SelectedAppliance list \<Rightarrow> CatalogItem list \<Rightarrow> jsnum" where
  "calc_panelCount appliances catalog =
     Math_ceil (js_div (calc_requiredPanelPower appliances)
                       (panel_divisor (calc_panel catalog)))"

text \<open>The price \<open>(item?.price || 0)\<close> of a chosen item.\<close>

definition price_or_zero :: "CatalogItem option \<Rightarrow> jsnum" where
  "price_or_zero item = lor_num (map_option price item) (Fin 0)"

definition calc_equipmentCost :: "SelectedAppliance list \<Rightarrow> CatalogItem list \<Rightarrow> jsnum" where
  "calc_equipmentCost appliances catalog =
     js_add
       (js_add
          (js_mul (calc_inverterCount appliances catalog)
                  (price_or_zero (calc_inverter appliances catalog)))
          (js_mul (calc_batteryCount appliances catalog)
                  (price_or_zero (calc_battery catalog))))
       (js_mul (calc_panelCount appliances catalog)
               (price_or_zero (calc_panel catalog)))"

definition calc_installCost :: "CatalogItem list \<Rightarrow> jsnum" where
  "calc_installCost catalog =
     lor_num (map_option price (List.find (\<lambda>i. type_item i = Installation) catalog))
             (Fin 150000)"

definition calc_totalCost :: "SelectedAppliance list \<Rightarrow> CatalogItem list \<Rightarrow> jsnum" where
  "calc_totalCost appliances catalog =
     js_add (calc_equipmentCost appliances catalog) (calc_installCost catalog)"

definition calc_totalAnnualSavings :: "jsnum \<Rightarrow> jsnum \<Rightarrow> jsnum" where
  "calc_totalAnnualSavings monthlyBill fuelCost =
     (let annualGridCost = js_mul monthlyBill (Fin 12);
          annualFuelCost = js_mul fuelCost (Fin 12)
      in js_add annualGridCost (js_mul annualFuelCost (Fin (9 / 10))))"

definition calc_co2Saved :: "SelectedAppliance list \<Rightarrow> jsnum" where
  "calc_co2Saved appliances =
     js_div (js_mul (js_mul (calc_dailyWh appliances) (Fin (4 / 10))) (Fin 365)) (Fin 1000)"

definition calculateSolarSystem ::
  "jsnum \<Rightarrow> jsnum \<Rightarrow> SelectedAppliance list \<Rightarrow> CatalogItem list \<Rightarrow> sizing_result" where
  "calculateSolarSystem monthlyBill fuelCost appliances catalog =
     \<lparr> system =
         \<lparr> inverterCount = calc_inverterCount appliances catalog,
           batteryCount = calc_batteryCount appliances catalog,
           panelCount = calc_panelCount appliances catalog,
           inverter = calc_inverter appliances catalog,
           battery = calc_battery catalog,
           panel = calc_panel catalog \<rparr>,
       financials =
         \<lparr> totalCost = calc_totalCost appliances catalog,
           totalAnnualSavings = calc_totalAnnualSavings monthlyBill fuelCost,
           roiYears = js_div (calc_totalCost appliances catalog)
                             (calc_totalAnnualSavings monthlyBill fuelCost) \<rparr>,
       impact = \<lparr> co2Saved = calc_co2Saved appliances \<rparr>,
       details =
         \<lparr> dailyWh = calc_dailyWh appliances,
           designedPeakLoad = calc_designedPeakLoad appliances \<rparr> \<rparr>"

text \<open>\<open>DEFAULT_CATALOG\<close> of the source.\<close>

definition DEFAULT_CATALOG :: "CatalogItem list" where
  "DEFAULT_CATALOG =
     [ \<lparr> id_item = ''1'', name_item = ''Jinko Solar Tiger Pro (550W)'', type_item = Panel,
         price = Fin 85000, spec = Fin 550, unit_item = ''W'' \<rparr>,
       \<lparr> id_item = ''2'', name_item = ''Growatt Hybrid Inverter (5kVA)'', type_item = Inverter,
         price = Fin 650000, spec = Fin 5000, unit_item = ''VA'' \<rparr>,
       \<lparr> id_item = ''3'', name_item = ''Felicity Lithium Battery (5kWh)'', type_item = Battery,
         price = Fin 1200000, spec = Fin 5000, unit_item = ''Wh'' \<rparr>,
       \<lparr> id_item = ''4'', name_item = ''Mounting & Install Kit'', type_item = Installation,
         price = Fin 150000, spec = Fin 1, unit_item = ''Lot'' \<rparr> ]"

subsection \<open>The domain of the engine and its arithmetic content\<close>

text \<open>
  The engine is specified on validated input: every number of a request is finite and
  not negative. On such input every intermediate value is finite, and the functions below
  name the rational value behind each of them.
\<close>

fun num :: "jsnum \<Rightarrow> rat" where
  "num (Fin q) = q"
| "num PInf = 0"
| "num NInf = 0"
| "num NaN = 0"

fun nonneg :: "jsnum \<Rightarrow> bool" where
  "nonneg (Fin q) = (0 \<le> q)"
| "nonneg PInf = False"
| "nonneg NInf = False"
| "nonneg NaN = False"




definition valid_item :: "CatalogItem \<Rightarrow> bool" where
  "valid_item i = (nonneg (price i) \<and> nonneg (spec i))"



text \<open>
  The rating that divides the required capacity, \<open>item?.spec || d\<close>, and the unit
  price, \<open>item?.price || 0\<close>, of a chosen item whose numbers are finite.
\<close>

fun eff_spec :: "rat \<Rightarrow> CatalogItem option \<Rightarrow> rat" where
  "eff_spec d None = d"
| "eff_spec d (Some i) = (if num (spec i) = 0 then d else num (spec i))"


definition valid_choice :: "CatalogItem option \<Rightarrow> bool" where
  "valid_choice item = (case item of None \<Rightarrow> True | Some i \<Rightarrow> valid_item i)"









subsection \<open>Sample requests\<close>

text \<open>
  The television and the ceiling fan of \<open>COMMON_APPLIANCES\<close> (the name of the
  television shortened), as the calculator selects them: one television, two fans, each
  at its default hours.
\<close>

definition tv :: SelectedAppliance where
  "tv = \<lparr> id_app = ''tv'', name_app = ''LED TV'', watts = Fin 100,
          defaultHours = Fin 6, count_app = Fin 1, hours = Fin 6 \<rparr>"

definition fan :: SelectedAppliance where
  "fan = \<lparr> id_app = ''fan'', name_app = ''Ceiling Fan'', watts = Fin 75,
          defaultHours = Fin 12, count_app = Fin 2, hours = Fin 12 \<rparr>"

text \<open>A catalog whose panel, inverter and battery carry the rating 0.\<close>

definition zero_spec_catalog :: "CatalogItem list" where
  "zero_spec_catalog =
     [ \<lparr> id_item = ''1'', name_item = ''Panel'', type_item = Panel,
         price = Fin 85000, spec = Fin 0, unit_item = ''W'' \<rparr>,
       \<lparr> id_item = ''2'', name_item = ''Inverter'', type_item = Inverter,
         price = Fin 650000, spec = Fin 0, unit_item = ''VA'' \<rparr>,
       \<lparr> id_item = ''3'', name_item = ''Battery'', type_item = Battery,
         price = Fin 1200000, spec = Fin 0, unit_item = ''Wh'' \<rparr> ]"

text \<open>
  A load whose required inverter size is exactly 6000 in exact arithmetic:
  \<open>50000 / 7 * 0.7 * 1.2 = 6000\<close>.
\<close>

definition heavy_load :: SelectedAppliance where
  "heavy_load = \<lparr> id_app = ''load'', name_app = ''Load'', watts = Fin (50000 / 7),
          defaultHours = Fin 8, count_app = Fin 1, hours = Fin 8 \<rparr>"

text \<open>A catalog that lists a 10 kVA inverter before the 5 kVA inverter of the default catalog.\<close>

definition oversized_first_catalog :: "CatalogItem list" where
  "oversized_first_catalog =
     [ \<lparr> id_item = ''5'', name_item = ''Hybrid Inverter (10kVA)'', type_item = Inverter,
         price = Fin 1200000, spec = Fin 10000, unit_item = ''VA'' \<rparr>,
       \<lparr> id_item = ''2'', name_item = ''Growatt Hybrid Inverter (5kVA)'', type_item = Inverter,
         price = Fin 650000, spec = Fin 5000, unit_item = ''VA'' \<rparr> ]"



section \<open>Auxiliary facts\<close>

subsection \<open>Addition and the loop\<close>





subsection \<open>Valid input keeps every value finite\<close>

















lemma find_valid:
  "list_all valid_item cat \<Longrightarrow> List.find P cat = Some i \<Longrightarrow> valid_item i"
  by (auto simp: find_Some_iff list_all_length)

lemma find_inverter_cases:
  "find_inverter r cat = Some i \<Longrightarrow>
     List.find (\<lambda>i. type_item i = Inverter \<and> js_ge (spec i) r) cat = Some i \<or>
     List.find (\<lambda>i. type_item i = Inverter) cat = Some i"
  unfolding find_inverter_def
  by (cases "List.find (\<lambda>i. type_item i = Inverter \<and> js_ge (spec i) r) cat") simp_all

lemma find_inverter_valid:
  "list_all valid_item cat \<Longrightarrow> find_inverter r cat = Some i \<Longrightarrow> valid_item i"
  using find_inverter_cases find_valid by blast

lemma valid_choice_find: "list_all valid_item cat \<Longrightarrow> valid_choice (List.find P cat)"
  unfolding valid_choice_def by (auto split: option.splits dest: find_valid)

lemma valid_choice_inverter: "list_all valid_item cat \<Longrightarrow> valid_choice (calc_inverter apps cat)"
  unfolding valid_choice_def calc_inverter_def by (auto split: option.splits dest: find_inverter_valid)

lemma nonnegE: "nonneg x \<Longrightarrow> (\<And>q. x = Fin q \<Longrightarrow> 0 \<le> q \<Longrightarrow> P) \<Longrightarrow> P"
  by (cases x) simp_all

lemma divisor_valid:
  "valid_choice item \<Longrightarrow> lor_num (map_option spec item) (Fin d) = Fin (eff_spec d item)"
  unfolding valid_choice_def valid_item_def
  by (cases item) (auto elim!: nonnegE)

lemma eff_spec_pos: "valid_choice item \<Longrightarrow> 0 < d \<Longrightarrow> 0 < eff_spec d item"
  unfolding valid_choice_def valid_item_def
  by (cases item) (auto elim!: nonnegE)


subsection \<open>Counts and costs on valid input\<close>














lemma calculateSolarSystem_fields:
  "inverterCount (system (calculateSolarSystem b f apps cat)) = calc_inverterCount apps cat"
  "batteryCount (system (calculateSolarSystem b f apps cat)) = calc_batteryCount apps cat"
  "panelCount (system (calculateSolarSystem b f apps cat)) = calc_panelCount apps cat"
  "inverter (system (calculateSolarSystem b f apps cat)) = calc_inverter apps cat"
  "battery (system (calculateSolarSystem b f apps cat)) = calc_battery cat"
  "panel (system (calculateSolarSystem b f apps cat)) = calc_panel cat"
  "totalCost (financials (calculateSolarSystem b f apps cat)) = calc_totalCost apps cat"
  "totalAnnualSavings (financials (calculateSolarSystem b f apps cat)) =
     calc_totalAnnualSavings b f"
  "roiYears (financials (calculateSolarSystem b f apps cat)) =
     js_div (calc_totalCost apps cat) (calc_totalAnnualSavings b f)"
  "co2Saved (impact (calculateSolarSystem b f apps cat)) = calc_co2Saved apps"
  "dailyWh (details (calculateSolarSystem b f apps cat)) = calc_dailyWh apps"
  "designedPeakLoad (details (calculateSolarSystem b f apps cat)) = calc_designedPeakLoad apps"
  by (simp_all add: calculateSolarSystem_def)





subsection \<open>Savings, payback and the degenerate request\<close>





lemmas engine_defs =
  calculateSolarSystem_def calc_dailyWh_def calc_peakWatts_def diversityFactor_def
  calc_designedPeakLoad_def calc_requiredInverterSize_def find_inverter_def calc_inverter_def
  inverter_divisor_def battery_divisor_def panel_divisor_def calc_inverterCount_def
  calc_requiredStorageWh_def calc_battery_def calc_batteryCount_def calc_requiredPanelPower_def
  calc_panel_def calc_panelCount_def price_or_zero_def calc_equipmentCost_def
  calc_installCost_def calc_totalCost_def calc_totalAnnualSavings_def calc_co2Saved_def


subsection \<open>The divisors\<close>

lemma lor_num_not_zero: "d \<noteq> Fin 0 \<Longrightarrow> lor_num x d \<noteq> Fin 0"
  by (cases x) auto

subsection \<open>A catalog without an item of some kind\<close>



lemma find_inverter_None:
  assumes "\<forall>i \<in> set cat. type_item i \<noteq> Inverter"
  shows "find_inverter r cat = None"
proof -
  have "List.find (\<lambda>i. type_item i = Inverter \<and> js_ge (spec i) r) cat = None"
    and "List.find (\<lambda>i. type_item i = Inverter) cat = None"
    using assms by (auto simp: find_None_iff)
  then show ?thesis by (simp add: find_inverter_def)
qed

subsection \<open>Searching the catalog\<close>



lemma find_of_filter:
  "filter P xs = y # ys \<Longrightarrow> List.find P xs = Some y"
  by (induction xs) (auto split: if_splits)

lemma find_None_of_filter:
  assumes "filter P xs = [y]" and "\<not> Q y"
  shows "List.find (\<lambda>i. P i \<and> Q i) xs = None"
proof -
  have "\<not> (P x \<and> Q x)" if "x \<in> set xs" for x
  proof
    assume "P x \<and> Q x"
    then have "x \<in> set (filter P xs)" using that by simp
    then have "x = y" using assms(1) by simp
    then show False using \<open>P x \<and> Q x\<close> assms(2) by simp
  qed
  then show ?thesis by (auto simp: find_None_iff)
qed

lemma find_first:
  assumes "P i" and "\<forall>j \<in> set pre. \<not> P j"
  shows "List.find P (pre @ i # post) = Some i"
  using assms by (induction pre) simp_all

subsection \<open>Growing one entry of the appliance list\<close>







section \<open>The claims\<close>

subsection \<open>C7: the daily energy is the sum over the appliances, in any order\<close>



subsection \<open>C4: integral counts and an exact total cost\<close>



subsection \<open>C6: no input makes the engine fail\<close>



subsection \<open>C1: the payback at zero savings\<close>




subsection \<open>C9: a zero rating is replaced by the default\<close>

text \<open>
  Claim C9. When the inverter, battery or panel the engine has chosen is present in the
  catalog with \<open>spec\<close> zero, its count is computed with the default rating (5000, 4800
  or 550). Each count is the ceiling of a quotient whose divisor is never zero, for any
  catalog at all; and when no rating of the catalog is negative the three divisors are
  strictly positive.
\<close>

theorem zero_spec_replaced_by_default:
  "(\<forall>i. inverter (system (calculateSolarSystem b f apps cat)) = Some i \<and> spec i = Fin 0 \<longrightarrow>
      inverterCount (system (calculateSolarSystem b f apps cat)) =
        Math_ceil (js_div (calc_requiredInverterSize apps) (Fin 5000))) \<and>
   (\<forall>i. battery (system (calculateSolarSystem b f apps cat)) = Some i \<and> spec i = Fin 0 \<longrightarrow>
      batteryCount (system (calculateSolarSystem b f apps cat)) =
        Math_ceil (js_div (calc_requiredStorageWh apps) (Fin 4800))) \<and>
   (\<forall>i. panel (system (calculateSolarSystem b f apps cat)) = Some i \<and> spec i = Fin 0 \<longrightarrow>
      panelCount (system (calculateSolarSystem b f apps cat)) =
        Math_ceil (js_div (calc_requiredPanelPower apps) (Fin 550))) \<and>
   inverterCount (system (calculateSolarSystem b f apps cat)) =
     Math_ceil (js_div (calc_requiredInverterSize apps)
       (inverter_divisor (inverter (system (calculateSolarSystem b f apps cat))))) \<and>
   batteryCount (system (calculateSolarSystem b f apps cat)) =
     Math_ceil (js_div (calc_requiredStorageWh apps)
       (battery_divisor (battery (system (calculateSolarSystem b f apps cat))))) \<and>
   panelCount (system (calculateSolarSystem b f apps cat)) =
     Math_ceil (js_div (calc_requiredPanelPower apps)
       (panel_divisor (panel (system (calculateSolarSystem b f apps cat))))) \<and>
   inverter_divisor (inverter (system (calculateSolarSystem b f apps cat))) \<noteq> Fin 0 \<and>
   battery_divisor (battery (system (calculateSolarSystem b f apps cat))) \<noteq> Fin 0 \<and>
   panel_divisor (panel (system (calculateSolarSystem b f apps cat))) \<noteq> Fin 0 \<and>
   (list_all valid_item cat \<longrightarrow>
      (\<exists>dI dB dP. 0 < dI \<and> 0 < dB \<and> 0 < dP \<and>
         inverter_divisor (inverter (system (calculateSolarSystem b f apps cat))) = Fin dI \<and>
         battery_divisor (battery (system (calculateSolarSystem b f apps cat))) = Fin dB \<and>
         panel_divisor (panel (system (calculateSolarSystem b f apps cat))) = Fin dP))"
proof -
  have 1: "calc_inverterCount apps cat =
        Math_ceil (js_div (calc_requiredInverterSize apps) (Fin 5000))"
    if "calc_inverter apps cat = Some i" "spec i = Fin 0" for i
    using that by (simp add: calc_inverterCount_def inverter_divisor_def)
  have 2: "calc_batteryCount apps cat =
        Math_ceil (js_div (calc_requiredStorageWh apps) (Fin 4800))"
    if "calc_battery cat = Some i" "spec i = Fin 0" for i
    using that by (simp add: calc_batteryCount_def battery_divisor_def)
  have 3: "calc_panelCount apps cat =
        Math_ceil (js_div (calc_requiredPanelPower apps) (Fin 550))"
    if "calc_panel cat = Some i" "spec i = Fin 0" for i
    using that by (simp add: calc_panelCount_def panel_divisor_def)
  have 4: "inverter_divisor (calc_inverter apps cat) \<noteq> Fin 0"
    "battery_divisor (calc_battery cat) \<noteq> Fin 0"
    "panel_divisor (calc_panel cat) \<noteq> Fin 0"
    unfolding inverter_divisor_def battery_divisor_def panel_divisor_def
    by (simp_all add: lor_num_not_zero)
  have 5: "\<exists>dI dB dP. 0 < dI \<and> 0 < dB \<and> 0 < dP \<and>
         inverter_divisor (calc_inverter apps cat) = Fin dI \<and>
         battery_divisor (calc_battery cat) = Fin dB \<and>
         panel_divisor (calc_panel cat) = Fin dP"
    if vc: "list_all valid_item cat"
  proof -
    have vI: "valid_choice (calc_inverter apps cat)"
      using vc by (rule valid_choice_inverter)
    have vB: "valid_choice (calc_battery cat)"
      unfolding calc_battery_def using vc by (rule valid_choice_find)
    have vP: "valid_choice (calc_panel cat)"
      unfolding calc_panel_def using vc by (rule valid_choice_find)
    have "0 < eff_spec 5000 (calc_inverter apps cat)" "0 < eff_spec 4800 (calc_battery cat)"
      "0 < eff_spec 550 (calc_panel cat)"
      using vI vB vP by (simp_all add: eff_spec_pos)
    then show ?thesis
      unfolding inverter_divisor_def battery_divisor_def panel_divisor_def
      using divisor_valid[OF vI] divisor_valid[OF vB] divisor_valid[OF vP] by blast
  qed
  show ?thesis
    unfolding calculateSolarSystem_fields
    using 1 2 3 4 5
    by (auto simp: calc_inverterCount_def calc_batteryCount_def calc_panelCount_def)
qed

theorem zero_spec_replaced_by_default_witness:
  "list_all valid_item zero_spec_catalog \<and>
   map_option spec (inverter (system (calculateSolarSystem (Fin 0) (Fin 0) [tv, fan] zero_spec_catalog)))
     = Some (Fin 0) \<and>
   map_option spec (battery (system (calculateSolarSystem (Fin 0) (Fin 0) [tv, fan] zero_spec_catalog)))
     = Some (Fin 0) \<and>
   map_option spec (panel (system (calculateSolarSystem (Fin 0) (Fin 0) [tv, fan] zero_spec_catalog)))
     = Some (Fin 0) \<and>
   inverterCount (system (calculateSolarSystem (Fin 0) (Fin 0) [tv, fan] zero_spec_catalog)) =
     Math_ceil (js_div (calc_requiredInverterSize [tv, fan]) (Fin 5000)) \<and>
   batteryCount (system (calculateSolarSystem (Fin 0) (Fin 0) [tv, fan] zero_spec_catalog)) =
     Math_ceil (js_div (calc_requiredStorageWh [tv, fan]) (Fin 4800)) \<and>
   panelCount (system (calculateSolarSystem (Fin 0) (Fin 0) [tv, fan] zero_spec_catalog)) =
     Math_ceil (js_div (calc_requiredPanelPower [tv, fan]) (Fin 550)) \<and>
   (\<exists>dI dB dP. 0 < dI \<and> 0 < dB \<and> 0 < dP \<and>
      inverter_divisor (inverter (system (calculateSolarSystem (Fin 0) (Fin 0) [tv, fan] zero_spec_catalog)))
        = Fin dI \<and>
      battery_divisor (battery (system (calculateSolarSystem (Fin 0) (Fin 0) [tv, fan] zero_spec_catalog)))
        = Fin dB \<and>
      panel_divisor (panel (system (calculateSolarSystem (Fin 0) (Fin 0) [tv, fan] zero_spec_catalog)))
        = Fin dP)"
proof -
  have v: "list_all valid_item zero_spec_catalog"
    by (simp add: zero_spec_catalog_def valid_item_def)
  have i: "map_option spec (inverter (system (calculateSolarSystem (Fin 0) (Fin 0) [tv, fan] zero_spec_catalog)))
     = Some (Fin 0)"
    by (simp add: calculateSolarSystem_fields calc_inverter_def find_inverter_def
        zero_spec_catalog_def)
  have b: "map_option spec (battery (system (calculateSolarSystem (Fin 0) (Fin 0) [tv, fan] zero_spec_catalog)))
     = Some (Fin 0)"
    by (simp add: calculateSolarSystem_fields calc_battery_def zero_spec_catalog_def)
  have p: "map_option spec (panel (system (calculateSolarSystem (Fin 0) (Fin 0) [tv, fan] zero_spec_catalog)))
     = Some (Fin 0)"
    by (simp add: calculateSolarSystem_fields calc_panel_def zero_spec_catalog_def)
  note inst = zero_spec_replaced_by_default[of "Fin 0" "Fin 0" "[tv, fan]" zero_spec_catalog]
  from inst i b p v show ?thesis
    by auto
qed

subsection \<open>C10: a missing kind leaves its reference undefined\<close>



subsection \<open>C5: the headroom of a capacity-matched inverter\<close>



subsection \<open>C8: one inverter of 5000 VA against a demand of 6000 VA\<close>

text \<open>
  Claim C8 (scenario 3). Whenever the inverters of the catalog are exactly one item, rated
  5000, and the demand yields a required inverter size of 6000, the search for a matching
  inverter finds nothing, the engine falls back to that one inverter, and the count is
  \<open>ceil(6000 / 5000) = 2\<close>. The witness is the default catalog with a load of
  50000/7 watts.
\<close>

theorem single_inverter_fallback:
  assumes "filter (\<lambda>i. type_item i = Inverter) cat = [inv5k]"
    and "spec inv5k = Fin 5000"
    and "calc_requiredInverterSize apps = Fin 6000"
  shows "List.find (\<lambda>i. type_item i = Inverter \<and> js_ge (spec i) (calc_requiredInverterSize apps)) cat
           = None \<and>
         inverter (system (calculateSolarSystem b f apps cat)) = Some inv5k \<and>
         inverterCount (system (calculateSolarSystem b f apps cat)) = Fin 2"
proof -
  have "\<not> js_ge (spec inv5k) (calc_requiredInverterSize apps)"
    by (simp add: assms(2,3))
  with assms(1) have none:
    "List.find (\<lambda>i. type_item i = Inverter \<and> js_ge (spec i) (calc_requiredInverterSize apps)) cat
       = None"
    by (rule find_None_of_filter)
  have some: "List.find (\<lambda>i. type_item i = Inverter) cat = Some inv5k"
    using assms(1) by (rule find_of_filter)
  have ci: "calc_inverter apps cat = Some inv5k"
    by (simp add: calc_inverter_def find_inverter_def none some)
  have "\<lceil>6000 / 5000 :: rat\<rceil> = 2"
    by (simp add: ceiling_eq_iff)
  then have "calc_inverterCount apps cat = Fin 2"
    by (simp add: calc_inverterCount_def inverter_divisor_def ci assms(2,3))
  then show ?thesis
    unfolding calculateSolarSystem_fields using none ci by simp
qed

theorem single_inverter_fallback_witness:
  "filter (\<lambda>i. type_item i = Inverter) DEFAULT_CATALOG = [DEFAULT_CATALOG ! 1] \<and>
   spec (DEFAULT_CATALOG ! 1) = Fin 5000 \<and>
   calc_requiredInverterSize [heavy_load] = Fin 6000 \<and>
   List.find (\<lambda>i. type_item i = Inverter \<and> js_ge (spec i) (calc_requiredInverterSize [heavy_load]))
     DEFAULT_CATALOG = None \<and>
   inverter (system (calculateSolarSystem (Fin 50000) (Fin 30000) [heavy_load] DEFAULT_CATALOG))
     = Some (DEFAULT_CATALOG ! 1) \<and>
   inverterCount (system (calculateSolarSystem (Fin 50000) (Fin 30000) [heavy_load] DEFAULT_CATALOG))
     = Fin 2"
proof -
  have a: "filter (\<lambda>i. type_item i = Inverter) DEFAULT_CATALOG = [DEFAULT_CATALOG ! 1]"
    by (simp add: DEFAULT_CATALOG_def)
  have b: "spec (DEFAULT_CATALOG ! 1) = Fin 5000"
    by (simp add: DEFAULT_CATALOG_def)
  have c: "calc_requiredInverterSize [heavy_load] = Fin 6000"
    by (simp add: engine_defs heavy_load_def)
  from single_inverter_fallback[OF a b c, of "Fin 50000" "Fin 30000"] a b c show ?thesis
    by blast
qed

subsection \<open>C2: which inverter is chosen\<close>

text \<open>
  Claim C2 says that the chosen inverter has the lowest rating among the inverters that
  cover the required size. With a 10 kVA inverter listed before a 5 kVA one and a required
  size of 210, the engine returns the 10 kVA inverter although the 5 kVA inverter covers
  the demand with a lower rating: \<open>find\<close> returns the first match in catalog order.
\<close>

theorem inverter_lowest_counterexample:
  "inverter (system (calculateSolarSystem (Fin 0) (Fin 0) [tv, fan] oversized_first_catalog))
     = Some (oversized_first_catalog ! 0) \<and>
   spec (oversized_first_catalog ! 0) = Fin 10000 \<and>
   oversized_first_catalog ! 1 \<in> set oversized_first_catalog \<and>
   type_item (oversized_first_catalog ! 1) = Inverter \<and>
   spec (oversized_first_catalog ! 1) = Fin 5000 \<and>
   js_ge (spec (oversized_first_catalog ! 1)) (calc_requiredInverterSize [tv, fan]) \<and>
   \<not> js_ge (spec (oversized_first_catalog ! 1)) (spec (oversized_first_catalog ! 0))"
  by (simp add: engine_defs oversized_first_catalog_def tv_def fan_def)

text \<open>
  Claim C2 as amended. The chosen inverter is the first item of the catalog, in catalog
  order, that is an inverter with \<open>spec >= requiredInverterSize\<close>; when no inverter
  covers the required size, it is the first inverter of the catalog; when the catalog has no
  inverter, the reference is undefined and the count is computed with the rating 5000 and
  the price 0.
\<close>

theorem inverter_first_match:
  "(\<forall>pre i post.
      cat = pre @ i # post \<and> type_item i = Inverter \<and>
      js_ge (spec i) (calc_requiredInverterSize apps) \<and>
      (\<forall>j \<in> set pre. \<not> (type_item j = Inverter \<and> js_ge (spec j) (calc_requiredInverterSize apps)))
      \<longrightarrow> inverter (system (calculateSolarSystem b f apps cat)) = Some i) \<and>
   (\<forall>pre i post.
      (\<forall>j \<in> set cat. \<not> (type_item j = Inverter \<and> js_ge (spec j) (calc_requiredInverterSize apps))) \<and>
      cat = pre @ i # post \<and> type_item i = Inverter \<and> (\<forall>j \<in> set pre. type_item j \<noteq> Inverter)
      \<longrightarrow> inverter (system (calculateSolarSystem b f apps cat)) = Some i) \<and>
   ((\<forall>j \<in> set cat. type_item j \<noteq> Inverter) \<longrightarrow>
      inverter (system (calculateSolarSystem b f apps cat)) = None \<and>
      inverter_divisor (inverter (system (calculateSolarSystem b f apps cat))) = Fin 5000 \<and>
      price_or_zero (inverter (system (calculateSolarSystem b f apps cat))) = Fin 0)"
proof (intro conjI allI impI)
  fix pre i post
  assume a: "cat = pre @ i # post \<and> type_item i = Inverter \<and>
      js_ge (spec i) (calc_requiredInverterSize apps) \<and>
      (\<forall>j \<in> set pre. \<not> (type_item j = Inverter \<and> js_ge (spec j) (calc_requiredInverterSize apps)))"
  then have "List.find (\<lambda>i. type_item i = Inverter \<and> js_ge (spec i) (calc_requiredInverterSize apps))
               (pre @ i # post) = Some i"
    by (intro find_first) simp_all
  then show "inverter (system (calculateSolarSystem b f apps cat)) = Some i"
    using a by (simp add: calculateSolarSystem_fields calc_inverter_def find_inverter_def)
next
  fix pre i post
  assume a: "(\<forall>j \<in> set cat. \<not> (type_item j = Inverter \<and> js_ge (spec j) (calc_requiredInverterSize apps))) \<and>
      cat = pre @ i # post \<and> type_item i = Inverter \<and> (\<forall>j \<in> set pre. type_item j \<noteq> Inverter)"
  then have "\<forall>j \<in> set cat. \<not> (type_item j = Inverter \<and> js_ge (spec j) (calc_requiredInverterSize apps))"
    by blast
  then have none: "List.find (\<lambda>i. type_item i = Inverter \<and> js_ge (spec i) (calc_requiredInverterSize apps))
               cat = None"
    by (auto simp: find_None_iff)
  from a have "List.find (\<lambda>i. type_item i = Inverter) (pre @ i # post) = Some i"
    by (intro find_first) simp_all
  then show "inverter (system (calculateSolarSystem b f apps cat)) = Some i"
    using a none by (simp add: calculateSolarSystem_fields calc_inverter_def find_inverter_def)
next
  assume a: "\<forall>j \<in> set cat. type_item j \<noteq> Inverter"
  then have n: "calc_inverter apps cat = None"
    unfolding calc_inverter_def by (rule find_inverter_None)
  show "inverter (system (calculateSolarSystem b f apps cat)) = None"
    and "inverter_divisor (inverter (system (calculateSolarSystem b f apps cat))) = Fin 5000"
    and "price_or_zero (inverter (system (calculateSolarSystem b f apps cat))) = Fin 0"
    by (simp_all add: calculateSolarSystem_fields n inverter_divisor_def price_or_zero_def)
qed

theorem inverter_first_match_witness:
  "inverter (system (calculateSolarSystem (Fin 0) (Fin 0) [tv, fan] oversized_first_catalog))
     = Some (oversized_first_catalog ! 0) \<and>
   inverter (system (calculateSolarSystem (Fin 0) (Fin 0) [heavy_load] DEFAULT_CATALOG))
     = Some (DEFAULT_CATALOG ! 1) \<and>
   inverter (system (calculateSolarSystem (Fin 0) (Fin 0) [tv, fan] [])) = None \<and>
   inverter_divisor (inverter (system (calculateSolarSystem (Fin 0) (Fin 0) [tv, fan] []))) = Fin 5000 \<and>
   price_or_zero (inverter (system (calculateSolarSystem (Fin 0) (Fin 0) [tv, fan] []))) = Fin 0"
proof -
  have r1: "calc_requiredInverterSize [tv, fan] = Fin 210"
    by (simp add: engine_defs tv_def fan_def)
  have r2: "calc_requiredInverterSize [heavy_load] = Fin 6000"
    by (simp add: engine_defs heavy_load_def)
  have h1: "oversized_first_catalog = [] @ (oversized_first_catalog ! 0) # [oversized_first_catalog ! 1] \<and>
      type_item (oversized_first_catalog ! 0) = Inverter \<and>
      js_ge (spec (oversized_first_catalog ! 0)) (calc_requiredInverterSize [tv, fan]) \<and>
      (\<forall>j \<in> set []. \<not> (type_item j = Inverter \<and> js_ge (spec j) (calc_requiredInverterSize [tv, fan])))"
    by (simp add: r1 oversized_first_catalog_def)
  have h2: "(\<forall>j \<in> set DEFAULT_CATALOG.
        \<not> (type_item j = Inverter \<and> js_ge (spec j) (calc_requiredInverterSize [heavy_load]))) \<and>
      DEFAULT_CATALOG = [DEFAULT_CATALOG ! 0] @ (DEFAULT_CATALOG ! 1) # [DEFAULT_CATALOG ! 2, DEFAULT_CATALOG ! 3] \<and>
      type_item (DEFAULT_CATALOG ! 1) = Inverter \<and>
      (\<forall>j \<in> set [DEFAULT_CATALOG ! 0]. type_item j \<noteq> Inverter)"
    by (simp add: r2 DEFAULT_CATALOG_def)
  have h3: "\<forall>j \<in> set []. type_item j \<noteq> Inverter"
    by simp
  have t1: "inverter (system (calculateSolarSystem (Fin 0) (Fin 0) [tv, fan] oversized_first_catalog))
     = Some (oversized_first_catalog ! 0)"
    using inverter_first_match[of oversized_first_catalog "[tv, fan]" "Fin 0" "Fin 0"] h1 by blast
  have t2: "inverter (system (calculateSolarSystem (Fin 0) (Fin 0) [heavy_load] DEFAULT_CATALOG))
     = Some (DEFAULT_CATALOG ! 1)"
    using inverter_first_match[of DEFAULT_CATALOG "[heavy_load]" "Fin 0" "Fin 0"] h2 by blast
  have t3: "inverter (system (calculateSolarSystem (Fin 0) (Fin 0) [tv, fan] [])) = None \<and>
   inverter_divisor (inverter (system (calculateSolarSystem (Fin 0) (Fin 0) [tv, fan] []))) = Fin 5000 \<and>
   price_or_zero (inverter (system (calculateSolarSystem (Fin 0) (Fin 0) [tv, fan] []))) = Fin 0"
    using inverter_first_match[of "[]" "[tv, fan]" "Fin 0" "Fin 0"] h3 by blast
  from t1 t2 t3 show ?thesis by blast
qed

subsection \<open>C3: a larger load\<close>




end
